theory Spec2Isabelle
  imports Complex_Main
begin

section \<open>JavaScript values and primitives used by the tools\<close>

text \<open>
  The tools of \<^verbatim>\<open>src/src/mcp.ts\<close> and of its second copy in
  \<^verbatim>\<open>src/src/utils/logger.ts\<close> work on loosely typed JavaScript values.
  The embedding fixes the following reading.

  \<^item> A string is a \<^typ>\<open>string\<close>, read as the UTF-8 bytes of the text; the
    non-ASCII characters of the templates are written as their bytes.
    \<^verbatim>\<open>toLowerCase\<close> maps the ASCII capital letters and keeps every other byte. The
    classifier looks for ASCII keywords in the lowered name, which agrees with JavaScript
    for every name: the two characters whose JavaScript lower case holds an ASCII letter,
    U+0130 and U+212A, give an \<open>i\<close> that a combining mark follows and a \<open>k\<close>, and
    no keyword has a \<open>k\<close> or ends with an \<open>i\<close>. The type that the classifier prints in
    lower case is read as one of the node types of the Figma API, which are ASCII words;
    what is proved of a description uses of this label only that lowercasing brings in
    no line break. The file-name sanitizer, where the difference shows on ordinary
    titles, takes the language's lowercasing as a parameter instead.
  \<^item> A number is a double, written as the \<^typ>\<open>real\<close> that it denotes; there is no
    NaN and no infinity. The product of two numbers is the exact product rounded to the
    nearest double, ties to the even significand (\<open>to_double\<close>); a product beyond the
    largest double, which JavaScript turns into \<^verbatim>\<open>Infinity\<close>, is outside the model.
    \<^verbatim>\<open>Math.round\<close> is exact and rounds half up.
  \<^item> An optional property is an \<^typ>\<open>'a option\<close>, \<^term>\<open>None\<close> standing for
    \<^verbatim>\<open>undefined\<close>. A property that the source only ever uses behind
    \<^verbatim>\<open>Array.isArray(a) && a.length > 0\<close> is a list, the absent array being
    \<^term>\<open>[]\<close>.
  \<^item> Number-to-string conversion of an integer is its decimal (or hexadecimal)
    numeral, which is what JavaScript prints for an integer of magnitude below \<open>2^53\<close>.
    The conversion of an arbitrary number inside a template literal is the language's
    \<^verbatim>\<open>Number::toString\<close>; it is the parameter \<open>nstr\<close> of every function that
    prints such a number.
\<close>

definition truthy_str :: "string option \<Rightarrow> bool" where
  "truthy_str s = (case s of None \<Rightarrow> False | Some t \<Rightarrow> t \<noteq> [])"

definition truthy_num :: "real option \<Rightarrow> bool" where
  "truthy_num v = (case v of None \<Rightarrow> False | Some n \<Rightarrow> n \<noteq> 0)"

definition or_str :: "string option \<Rightarrow> string \<Rightarrow> string" where
  \<comment> \<open>\<^verbatim>\<open>s || d\<close> for an optional string \<open>s\<close>\<close>
  "or_str s d = (if truthy_str s then the s else d)"

definition or_num :: "real option \<Rightarrow> real \<Rightarrow> real" where
  \<comment> \<open>\<^verbatim>\<open>v || d\<close> for an optional number \<open>v\<close>\<close>
  "or_num v d = (if truthy_num v then the v else d)"

definition toLowerCase_char :: "char \<Rightarrow> char" where
  "toLowerCase_char c =
     (let n = (of_char c :: nat) in if 65 \<le> n \<and> n \<le> 90 then char_of (n + 32) else c)"

definition toLowerCase :: "string \<Rightarrow> string" where
  "toLowerCase s = map toLowerCase_char s"

fun startsWith :: "string \<Rightarrow> string \<Rightarrow> bool" where
  "startsWith s [] = True"
| "startsWith [] (p # ps) = False"
| "startsWith (c # cs) (p # ps) = (c = p \<and> startsWith cs ps)"

fun str_includes :: "string \<Rightarrow> string \<Rightarrow> bool" where
  "str_includes [] sub = (sub = [])"
| "str_includes (c # cs) sub = (startsWith (c # cs) sub \<or> str_includes cs sub)"

definition repeat_str :: "string \<Rightarrow> nat \<Rightarrow> string" where
  "repeat_str s n = concat (replicate n s)"

definition digit_char :: "nat \<Rightarrow> char" where
  "digit_char d = ''0123456789abcdef'' ! d"

fun nat_toString :: "nat \<Rightarrow> nat \<Rightarrow> string" where
  "nat_toString radix n =
     (if radix < 2 \<or> n < radix then [digit_char n]
      else nat_toString radix (n div radix) @ [digit_char (n mod radix)])"

declare nat_toString.simps [simp del]

definition int_toString :: "nat \<Rightarrow> int \<Rightarrow> string" where
  \<comment> \<open>\<^verbatim>\<open>n.toString(radix)\<close> for an integer \<open>n\<close>\<close>
  "int_toString radix n =
     (if n < 0 then ''-'' @ nat_toString radix (nat (- n)) else nat_toString radix (nat n))"

definition Math_round :: "real \<Rightarrow> int" where
  "Math_round v = \<lfloor>v + 1 / 2\<rfloor>"

text \<open>
  Rounding a real to the nearest double. \<open>exponent_of x\<close> is the exponent of the binade
  of a positive \<open>x\<close>: the largest \<open>e\<close> from \<open>-1022\<close> to \<open>1023\<close> with \<open>2^e \<le> x\<close>, found by a
  scan downwards from \<open>1023\<close>, and \<open>-1022\<close> for the subnormal numbers below. A double of
  this binade is a multiple of \<open>2^(e - 52)\<close>.
\<close>

definition round_half_even :: "real \<Rightarrow> int" where
  "round_half_even y =
     (let f = \<lfloor>y\<rfloor>; d = y - of_int f
      in if d < 1 / 2 then f else if 1 / 2 < d then f + 1 else if even f then f else f + 1)"

fun binade :: "nat \<Rightarrow> int \<Rightarrow> real \<Rightarrow> real \<Rightarrow> int" where
  "binade 0 e p x = e"
| "binade (Suc fuel) e p x = (if p \<le> x then e else binade fuel (e - 1) (p / 2) x)"

definition exponent_of :: "real \<Rightarrow> int" where
  "exponent_of x = binade 2045 1023 (2 ^ 1023) x"

definition to_double :: "real \<Rightarrow> real" where
  "to_double x =
     (if x = 0 then 0
      else let u = 2 powi (exponent_of \<bar>x\<bar> - 52)
           in sgn x * (of_int (round_half_even (\<bar>x\<bar> / u)) * u))"

section \<open>ColorCodec: \<^verbatim>\<open>rgbToHex\<close>\<close>

text \<open>
  The fields of a colour are \<^verbatim>\<open>r\<close>, \<^verbatim>\<open>g\<close> and \<^verbatim>\<open>b\<close> in the source; the
  selectors carry a prefix here, so that one-letter variables stay free.
\<close>

record rgb =
  rgb_r :: real
  rgb_g :: real
  rgb_b :: real

definition toHex :: "real \<Rightarrow> string" where
  "toHex v =
     (let hex = int_toString 16 (Math_round (to_double (v * 255)))
      in if length hex = 1 then ''0'' @ hex else hex)"

definition rgbToHex :: "rgb option \<Rightarrow> string" where
  "rgbToHex c =
     (case c of
        None \<Rightarrow> ''#000000''
      | Some v \<Rightarrow> ''#'' @ toHex (rgb_r v) @ toHex (rgb_g v) @ toHex (rgb_b v))"

text \<open>
  The specification's reading of a channel: two hexadecimal digits of an integer, which
  is the nearest integer to the channel scaled by 255. \<open>channel_byte\<close> is that integer as
  the program computes it, from the product in double precision.
\<close>

definition two_hex_digits :: "int \<Rightarrow> string" where
  "two_hex_digits n = [digit_char (nat n div 16), digit_char (nat n mod 16)]"

definition channel_byte :: "real \<Rightarrow> int" where
  "channel_byte v = Math_round (to_double (v * 255))"

section \<open>PurposeClassifier: \<^verbatim>\<open>inferElementPurpose\<close>\<close>

definition inferElementPurpose :: "string option \<Rightarrow> string \<Rightarrow> string" where
  "inferElementPurpose node_name node_type =
     (let name = toLowerCase (or_str node_name '''') in
      if node_type = ''TEXT'' then ''Text element''
      else if node_type = ''RECTANGLE'' \<and> str_includes name ''button'' then ''Button''
      else if node_type = ''RECTANGLE'' \<and> str_includes name ''card'' then ''Card or container''
      else if node_type = ''FRAME'' \<and> str_includes name ''header'' then ''Header''
      else if node_type = ''FRAME'' \<and> str_includes name ''footer'' then ''Footer''
      else if node_type = ''FRAME'' \<and> str_includes name ''nav'' then ''Navigation''
      else if node_type = ''INSTANCE'' then ''Reusable component''
      else if str_includes name ''icon'' then ''Icon''
      else if str_includes name ''image'' then ''Image''
      else if str_includes name ''input'' then ''Input field''
      else toLowerCase node_type @ '' element'')"

text \<open>
  The specification describes the classifier as an ordered list of rules, the first
  matching rule giving the label. A rule is a predicate on the lowercased name and the
  type, with the label it gives.
\<close>

type_synonym purpose_rule = "(string \<Rightarrow> string \<Rightarrow> bool) \<times> (string \<Rightarrow> string)"

definition purpose_rules :: "purpose_rule list" where
  "purpose_rules =
     [(\<lambda>name ty. ty = ''TEXT'', \<lambda>ty. ''Text element''),
      (\<lambda>name ty. ty = ''RECTANGLE'' \<and> str_includes name ''button'', \<lambda>ty. ''Button''),
      (\<lambda>name ty. ty = ''RECTANGLE'' \<and> str_includes name ''card'', \<lambda>ty. ''Card or container''),
      (\<lambda>name ty. ty = ''FRAME'' \<and> str_includes name ''header'', \<lambda>ty. ''Header''),
      (\<lambda>name ty. ty = ''FRAME'' \<and> str_includes name ''footer'', \<lambda>ty. ''Footer''),
      (\<lambda>name ty. ty = ''FRAME'' \<and> str_includes name ''nav'', \<lambda>ty. ''Navigation''),
      (\<lambda>name ty. ty = ''INSTANCE'', \<lambda>ty. ''Reusable component''),
      (\<lambda>name ty. str_includes name ''icon'', \<lambda>ty. ''Icon''),
      (\<lambda>name ty. str_includes name ''image'', \<lambda>ty. ''Image''),
      (\<lambda>name ty. str_includes name ''input'', \<lambda>ty. ''Input field''),
      (\<lambda>name ty. True, \<lambda>ty. toLowerCase ty @ '' element'')]"

fun first_match :: "purpose_rule list \<Rightarrow> string \<Rightarrow> string \<Rightarrow> string option" where
  "first_match [] name ty = None"
| "first_match ((p, l) # rules) name ty =
     (if p name ty then Some (l ty) else first_match rules name ty)"

section \<open>ExportOrchestrator: the \<^verbatim>\<open>download_figma_images\<close> tool\<close>







text \<open>
  The per-item outcomes that the fetch service returns are JavaScript values that the
  handler only tests for truthiness and prints: a boolean or a string (the path of the
  saved file, empty on failure). \<^verbatim>\<open>Array.prototype.find\<close> returns the first element
  that satisfies the predicate, and \<^verbatim>\<open>undefined\<close> when there is none.
\<close>

datatype jsval = JUndefined | JBool bool | JString string

fun truthy :: "jsval \<Rightarrow> bool" where
  "truthy JUndefined = False"
| "truthy (JBool v) = v"
| "truthy (JString s) = (s \<noteq> [])"

fun jsval_toString :: "jsval \<Rightarrow> string" where
  "jsval_toString JUndefined = ''undefined''"
| "jsval_toString (JBool v) = (if v then ''true'' else ''false'')"
| "jsval_toString (JString s) = s"

fun array_find :: "(jsval \<Rightarrow> bool) \<Rightarrow> jsval list \<Rightarrow> jsval" where
  "array_find p [] = JUndefined"
| "array_find p (v # vs) = (if p v then v else array_find p vs)"

fun join_with :: "'a list \<Rightarrow> 'a list list \<Rightarrow> 'a list" where
  "join_with sep [] = []"
| "join_with sep [v] = v"
| "join_with sep (v # w # ws) = v @ sep @ join_with sep (w # ws)"

definition array_join :: "jsval list \<Rightarrow> string \<Rightarrow> string" where
  \<comment> \<open>\<^verbatim>\<open>join\<close> prints an \<^verbatim>\<open>undefined\<close> element as the empty string\<close>
  "array_join vs sep =
     join_with sep (map (\<lambda>v. if v = JUndefined then [] else jsval_toString v) vs)"

definition saveSuccess :: "jsval list \<Rightarrow> bool" where
  "saveSuccess downloads = (\<not> truthy (array_find (\<lambda>success. \<not> truthy success) downloads))"

text \<open>
  The text that the handler returns once both downloads have resolved, \<open>f\<close> being the
  outcomes of the fill downloads and \<open>r\<close> those of the render downloads.
\<close>

definition download_result_text :: "jsval list \<Rightarrow> jsval list \<Rightarrow> string" where
  "download_result_text f r =
     (let downloads = f @ r in
      if saveSuccess downloads
      then ''Success, '' @ int_toString 10 (int (length downloads)) @ '' images downloaded: ''
             @ array_join downloads '', ''
      else ''Failed'')"

text \<open>The aggregate that the specification asks for: every item outcome is a success.\<close>

definition every_item_succeeded :: "jsval list \<Rightarrow> bool" where
  "every_item_succeeded downloads = list_all truthy downloads"

section \<open>DescriptorEngine: \<^verbatim>\<open>generateDetailedVisualDescription\<close>\<close>

subsection \<open>The design tree\<close>

text \<open>
  Only the properties that the engine reads are kept. Several objects of the source have
  a property \<^verbatim>\<open>type\<close> or \<^verbatim>\<open>color\<close>, and \<^verbatim>\<open>x\<close>, \<^verbatim>\<open>y\<close> and \<^verbatim>\<open>size\<close> would
  hide variables and constants of HOL: those selectors carry the name of their record.
\<close>

record bounding_box =
  box_x :: real
  box_y :: real
  box_width :: real
  box_height :: real

record vector =
  vector_x :: real
  vector_y :: real

record paint =
  paint_type :: string
  paint_color :: "rgb option"
  paint_opacity :: "real option"

record effect =
  effect_type :: string
  effect_color :: "rgb option"
  effect_offset :: "vector option"
  effect_radius :: "real option"

record text_style =
  fontFamily :: "string option"
  fontSize :: "real option"
  fontWeight :: "real option"
  textAlignHorizontal :: "string option"
  textAlignVertical :: "string option"
  lineHeightPx :: "real option"

record node_props =
  node_name :: "string option"
  node_type :: string
  absoluteBoundingBox :: "bounding_box option"
  node_size :: "vector option"
  layoutAlign :: "string option"
  layoutGrow :: "real option"
  paddingLeft :: "real option"
  paddingTop :: "real option"
  paddingRight :: "real option"
  paddingBottom :: "real option"
  itemSpacing :: "real option"
  fills :: "paint list"
  style :: "text_style option"
  strokes :: "paint list"
  strokeWeight :: "real option"
  cornerRadius :: "real option"
  effects :: "effect list"
  characters :: "string option"

datatype node = Node node_props "node list"

fun props :: "node \<Rightarrow> node_props" where
  "props (Node p cs) = p"

fun children :: "node \<Rightarrow> node list" where
  "children (Node p cs) = cs"


subsection \<open>The emitted lines\<close>

text \<open>
  \<^verbatim>\<open>analyzeNode\<close> builds its result by appending to \<^verbatim>\<open>description\<close>. Every append
  is one element of the result here: the appended text, tagged with the statement that
  appended it. The description is the concatenation of the texts.
\<close>

datatype line_kind =
    Header | Section_title | Name_line | Type_line | Function_line
  | Position_line | Dimensions_line | Alignment_line | Growth_line | Padding_line
  | Item_spacing_line | Blank
  | Colors_title | Fill_line
  | Typography_title | Font_line | Size_line | Weight_line
  | Horizontal_alignment_line | Vertical_alignment_line | Line_height_line
  | Borders_title | Border_line | Corner_radius_line
  | Effects_title | Shadow_line
  | Content_title | Text_line
  | Children_title | Divider

type_synonym line = "line_kind \<times> string"



definition present :: "'a option \<Rightarrow> bool" where
  "present v = (case v of None \<Rightarrow> False | Some w \<Rightarrow> True)"

definition nl :: string where
  "nl = [CHR 0x0A]"

definition emoji_construction :: string where
  "emoji_construction = [CHR 0xF0, CHR 0x9F, CHR 0x8F, CHR 0x97, CHR 0xEF, CHR 0xB8, CHR 0x8F]"

definition emoji_package :: string where
  "emoji_package = [CHR 0xF0, CHR 0x9F, CHR 0x93, CHR 0xA6]"

definition emoji_target :: string where
  "emoji_target = [CHR 0xF0, CHR 0x9F, CHR 0x8E, CHR 0xAF]"

definition emoji_triangle :: string where
  "emoji_triangle = [CHR 0xF0, CHR 0x9F, CHR 0x93, CHR 0x90]"

definition emoji_palette :: string where
  "emoji_palette = [CHR 0xF0, CHR 0x9F, CHR 0x8E, CHR 0xA8]"

definition emoji_people :: string where
  "emoji_people = [CHR 0xF0, CHR 0x9F, CHR 0x91, CHR 0xA5]"



definition times_sign :: string where
  "times_sign = [CHR 0xC3, CHR 0x97]"

subsection \<open>The sections of one node\<close>

definition header_line :: "nat \<Rightarrow> node_props \<Rightarrow> line" where
  "header_line level p =
     (Header,
      repeat_str ''  '' level @ ''## ''
        @ (if level = 0 then emoji_construction @ '' '' else emoji_package @ '' '')
        @ or_str (node_name p) ''Unnamed element'' @ '' ('' @ node_type p @ '')'' @ nl @ nl)"

definition identification_lines :: "string \<Rightarrow> node_props \<Rightarrow> line list" where
  "identification_lines indent p =
     [(Section_title, indent @ ''### '' @ emoji_target @ '' Identification and Purpose'' @ nl),
      (Name_line, indent @ ''- **Name**: '' @ or_str (node_name p) ''Unnamed'' @ nl),
      (Type_line, indent @ ''- **Type**: '' @ node_type p @ nl),
      (Function_line, indent @ ''- **Apparent function**: ''
         @ inferElementPurpose (node_name p) (node_type p) @ nl @ nl)]"

definition geometry_lines :: "(real \<Rightarrow> string) \<Rightarrow> string \<Rightarrow> node_props \<Rightarrow> line list" where
  "geometry_lines nstr indent p =
     (if present (absoluteBoundingBox p) \<or> present (node_size p) then
        [(Section_title, indent @ ''### '' @ emoji_triangle @ '' Geometry and Position'' @ nl)]
        @ (case absoluteBoundingBox p of
             None \<Rightarrow> []
           | Some box \<Rightarrow>
               [(Position_line, indent @ ''- **Position**: x='' @ nstr (box_x box) @ ''px, y=''
                   @ nstr (box_y box) @ ''px'' @ nl),
                (Dimensions_line, indent @ ''- **Dimensions**: '' @ nstr (box_width box) @ ''px ''
                   @ times_sign @ '' '' @ nstr (box_height box) @ ''px'' @ nl)])
        @ (if truthy_str (layoutAlign p)
           then [(Alignment_line, indent @ ''- **Alignment**: '' @ the (layoutAlign p) @ nl)]
           else [])
        @ (case layoutGrow p of
             None \<Rightarrow> []
           | Some grow \<Rightarrow> [(Growth_line, indent @ ''- **Growth**: '' @ nstr grow @ nl)])
        @ (if truthy_num (paddingLeft p) \<or> truthy_num (paddingTop p)
              \<or> truthy_num (paddingRight p) \<or> truthy_num (paddingBottom p)
           then [(Padding_line, indent @ ''- **Padding**: top='' @ nstr (or_num (paddingTop p) 0)
                   @ ''px, right='' @ nstr (or_num (paddingRight p) 0)
                   @ ''px, bottom='' @ nstr (or_num (paddingBottom p) 0)
                   @ ''px, left='' @ nstr (or_num (paddingLeft p) 0) @ ''px'' @ nl)]
           else [])
        @ (case itemSpacing p of
             None \<Rightarrow> []
           | Some spacing \<Rightarrow>
               [(Item_spacing_line, indent @ ''- **Item spacing**: '' @ nstr spacing @ ''px'' @ nl)])
        @ [(Blank, nl)]
      else [])"

text \<open>The body of \<^verbatim>\<open>fills.forEach\<close>, the index counting from the first argument.\<close>

fun fill_lines :: "string \<Rightarrow> nat \<Rightarrow> paint list \<Rightarrow> line list" where
  "fill_lines indent index [] = []"
| "fill_lines indent index (fill # rest) =
     (if paint_type fill = ''SOLID''
      then [(Fill_line, indent @ ''- **Fill '' @ int_toString 10 (int index + 1) @ ''**: ''
              @ rgbToHex (paint_color fill) @ '' (Opacity: ''
              @ int_toString 10 (Math_round (to_double (or_num (paint_opacity fill) 1 * 100))) @ ''%)'' @ nl)]
      else [])
     @ fill_lines indent (index + 1) rest"

definition colors_lines :: "string \<Rightarrow> node_props \<Rightarrow> line list" where
  "colors_lines indent p =
     (if length (fills p) > 0
      then (Colors_title, indent @ ''#### **Colors:**'' @ nl) # fill_lines indent 0 (fills p)
      else [])"

definition typography_lines :: "(real \<Rightarrow> string) \<Rightarrow> string \<Rightarrow> node_props \<Rightarrow> line list" where
  "typography_lines nstr indent p =
     (case style p of
        None \<Rightarrow> []
      | Some st \<Rightarrow>
          [(Typography_title, indent @ ''#### **Typography:**'' @ nl),
           (Font_line, indent @ ''- **Font**: '' @ or_str (fontFamily st) ''Not specified'' @ nl),
           (Size_line, indent @ ''- **Size**: ''
              @ (if truthy_num (fontSize st) then nstr (the (fontSize st)) else ''Not specified'')
              @ ''px'' @ nl),
           (Weight_line, indent @ ''- **Weight**: ''
              @ (if truthy_num (fontWeight st) then nstr (the (fontWeight st)) else ''Normal'')
              @ nl)]
          @ (if truthy_str (textAlignHorizontal st)
             then [(Horizontal_alignment_line, indent @ ''- **Horizontal alignment**: ''
                     @ the (textAlignHorizontal st) @ nl)]
             else [])
          @ (if truthy_str (textAlignVertical st)
             then [(Vertical_alignment_line, indent @ ''- **Vertical alignment**: ''
                     @ the (textAlignVertical st) @ nl)]
             else [])
          @ (if truthy_num (lineHeightPx st)
             then [(Line_height_line, indent @ ''- **Line height**: ''
                     @ nstr (the (lineHeightPx st)) @ ''px'' @ nl)]
             else []))"

fun border_lines :: "(real \<Rightarrow> string) \<Rightarrow> string \<Rightarrow> real option \<Rightarrow> nat \<Rightarrow> paint list \<Rightarrow> line list" where
  "border_lines nstr indent weight index [] = []"
| "border_lines nstr indent weight index (stroke # rest) =
     (if paint_type stroke = ''SOLID''
      then [(Border_line, indent @ ''- **Border '' @ int_toString 10 (int index + 1) @ ''**: ''
              @ rgbToHex (paint_color stroke) @ '', width='' @ nstr (or_num weight 1) @ ''px'' @ nl)]
      else [])
     @ border_lines nstr indent weight (index + 1) rest"

definition borders_lines :: "(real \<Rightarrow> string) \<Rightarrow> string \<Rightarrow> node_props \<Rightarrow> line list" where
  "borders_lines nstr indent p =
     (if length (strokes p) > 0
      then (Borders_title, indent @ ''#### **Borders:**'' @ nl)
             # border_lines nstr indent (strokeWeight p) 0 (strokes p)
           @ (case cornerRadius p of
                None \<Rightarrow> []
              | Some radius \<Rightarrow>
                  [(Corner_radius_line, indent @ ''- **Corner radius**: '' @ nstr radius @ ''px'' @ nl)])
      else [])"

fun shadow_lines :: "(real \<Rightarrow> string) \<Rightarrow> string \<Rightarrow> nat \<Rightarrow> effect list \<Rightarrow> line list" where
  "shadow_lines nstr indent index [] = []"
| "shadow_lines nstr indent index (e # rest) =
     (if effect_type e = ''DROP_SHADOW''
      then [(Shadow_line, indent @ ''- **Shadow '' @ int_toString 10 (int index + 1) @ ''**: color=''
              @ rgbToHex (effect_color e) @ '', offset=(''
              @ nstr (or_num (map_option vector_x (effect_offset e)) 0) @ ''px, ''
              @ nstr (or_num (map_option vector_y (effect_offset e)) 0) @ ''px), blur=''
              @ nstr (or_num (effect_radius e) 0) @ ''px'' @ nl)]
      else [])
     @ shadow_lines nstr indent (index + 1) rest"

definition effects_lines :: "(real \<Rightarrow> string) \<Rightarrow> string \<Rightarrow> node_props \<Rightarrow> line list" where
  "effects_lines nstr indent p =
     (if length (effects p) > 0
      then (Effects_title, indent @ ''#### **Effects:**'' @ nl) # shadow_lines nstr indent 0 (effects p)
      else [])"

definition content_lines :: "string \<Rightarrow> node_props \<Rightarrow> line list" where
  "content_lines indent p =
     (if truthy_str (characters p)
      then [(Content_title, indent @ ''#### **Content:**'' @ nl),
            (Text_line, indent @ ''- **Text**: '' @ [CHR 0x22] @ the (characters p) @ [CHR 0x22] @ nl)]
      else [])"

text \<open>
  Everything that \<^verbatim>\<open>analyzeNode\<close> appends for a node before it turns to the children:
  the descriptor block of the node.
\<close>

definition node_block :: "(real \<Rightarrow> string) \<Rightarrow> nat \<Rightarrow> node_props \<Rightarrow> line list" where
  "node_block nstr level p =
     (let indent = repeat_str ''  '' level in
      header_line level p # identification_lines indent p
      @ geometry_lines nstr indent p
      @ [(Section_title, indent @ ''### '' @ emoji_palette @ '' Visual Appearance'' @ nl)]
      @ colors_lines indent p
      @ typography_lines nstr indent p
      @ borders_lines nstr indent p
      @ effects_lines nstr indent p
      @ content_lines indent p
      @ [(Blank, nl)])"

definition children_title :: "nat \<Rightarrow> nat \<Rightarrow> line" where
  "children_title level n =
     (Children_title,
      repeat_str ''  '' level @ ''### '' @ emoji_people @ '' Child Elements (''
        @ int_toString 10 (int n) @ '')'' @ nl @ nl)"

definition divider :: "nat \<Rightarrow> line" where
  "divider level = (Divider, repeat_str ''  '' level @ ''---'' @ nl @ nl)"

subsection \<open>The traversal\<close>

text \<open>
  \<^verbatim>\<open>analyzeChildren\<close> is the \<^verbatim>\<open>children.forEach\<close> of a node at \<open>level\<close> with \<open>n\<close>
  children, from the child of index \<open>index\<close> on.
\<close>

fun analyzeNode :: "(real \<Rightarrow> string) \<Rightarrow> nat \<Rightarrow> node \<Rightarrow> line list"
  and analyzeChildren :: "(real \<Rightarrow> string) \<Rightarrow> nat \<Rightarrow> nat \<Rightarrow> nat \<Rightarrow> node list \<Rightarrow> line list" where
  "analyzeNode nstr level (Node p cs) =
     node_block nstr level p
     @ (if length cs > 0
        then children_title level (length cs) # analyzeChildren nstr level (length cs) 0 cs
        else [])"
| "analyzeChildren nstr level n index [] = []"
| "analyzeChildren nstr level n index (child # rest) =
     analyzeNode nstr (level + 1) child
     @ (if int index < int n - 1 then [divider level] else [])
     @ analyzeChildren nstr level n (index + 1) rest"

declare analyzeNode.simps [simp del]




subsection \<open>The lines of a description\<close>

text \<open>
  The description is read line by line: a line ends at a line break, and \<open>lines_from\<close>
  scans the text with the line read so far. A line is marked by a prefix when it starts
  with the prefix after its indentation. The header of a node is a line marked by
  \<^verbatim>\<open>## \<close> and one of the two pictographs of the header template.
\<close>

fun lines_from :: "string \<Rightarrow> string \<Rightarrow> string list" where
  "lines_from line [] = (if line = [] then [] else [line])"
| "lines_from line (c # cs) =
     (if c = CHR 0x0A then line # lines_from [] cs else lines_from (line @ [c]) cs)"










text \<open>
  A string is free of line breaks; a node, a tree and a file context are clean when
  every string that the engine prints of them is.
\<close>

definition line_free :: "string \<Rightarrow> bool" where
  "line_free s = (CHR 0x0A \<notin> set s)"

definition line_free_opt :: "string option \<Rightarrow> bool" where
  "line_free_opt s = (case s of None \<Rightarrow> True | Some t \<Rightarrow> line_free t)"

definition clean_props :: "node_props \<Rightarrow> bool" where
  "clean_props p =
     (line_free_opt (node_name p) \<and> line_free (node_type p) \<and> line_free_opt (layoutAlign p)
      \<and> (case style p of
            None \<Rightarrow> True
          | Some st \<Rightarrow>
              line_free_opt (fontFamily st) \<and> line_free_opt (textAlignHorizontal st)
              \<and> line_free_opt (textAlignVertical st))
      \<and> line_free_opt (characters p))"




subsection \<open>The tree, as the specification counts and orders it\<close>

fun count_nodes :: "node \<Rightarrow> nat"
  and count_nodes_list :: "node list \<Rightarrow> nat" where
  "count_nodes (Node p cs) = 1 + count_nodes_list cs"
| "count_nodes_list [] = 0"
| "count_nodes_list (c # cs) = count_nodes c + count_nodes_list cs"


definition headers :: "line list \<Rightarrow> line list" where
  "headers ls = filter (\<lambda>l. fst l = Header) ls"

section \<open>DocumentAssembler: complexity label and sanitized file name\<close>

text \<open>
  The complexity label of the \<^verbatim>\<open>generate_technical_specification\<close> tool, computed from
  \<^verbatim>\<open>nodes\<close>, the array of nodes of the fetched design (\<^verbatim>\<open>logger.ts\<close>, line 857).
  The handler analyses \<^verbatim>\<open>nodes[0]\<close> and throws \<open>Node not found or empty\<close> when the
  array has no first element, before the summary is written: \<open>complexity_line\<close> is the
  line of the summary, or that error.
\<close>

definition complexity_level :: "node list \<Rightarrow> string" where
  "complexity_level nodes =
     (if length nodes > 5 then ''High'' else if length nodes > 2 then ''Medium'' else ''Low'')"

definition complexity_line :: "node list \<Rightarrow> string + string" where
  "complexity_line nodes =
     (case nodes of
        [] \<Rightarrow> Inl ''Node not found or empty''
      | main_node # others \<Rightarrow>
          Inr (''- **Complexity Level**: '' @ complexity_level nodes @ '' (''
                 @ int_toString 10 (int (length nodes)) @ '' total elements)''))"

text \<open>
  The label as the specification words it: from the total number of nodes of the
  analyzed tree, which is the first element of \<^verbatim>\<open>nodes\<close>.
\<close>

definition complexity_by_node_count :: "node \<Rightarrow> string" where
  "complexity_by_node_count main_node =
     (if count_nodes main_node > 5 then ''High''
      else if count_nodes main_node > 2 then ''Medium'' else ''Low'')"

text \<open>
  The sanitized file name: \<^verbatim>\<open>title.toLowerCase().replace(/[^a-z0-9]+/g, "-")\<close>
  followed by \<^verbatim>\<open>.replace(/^-+|-+$/g, "")\<close>. The regular expressions work on the
  UTF-16 code units of the string, so that a title is the list of its code units here,
  each a natural number; \<open>units\<close> gives the code units of a literal. What
  \<^verbatim>\<open>toLowerCase\<close> does to a title is fixed by the Unicode tables of the language: it
  is the parameter \<open>lower\<close>. A global replace scans from the left and a \<^verbatim>\<open>+\<close> takes
  the longest run.
\<close>

definition units :: "string \<Rightarrow> nat list" where
  "units s = map of_char s"

definition is_az09 :: "nat \<Rightarrow> bool" where
  "is_az09 c = ((97 \<le> c \<and> c \<le> 122) \<or> (48 \<le> c \<and> c \<le> 57))"

function replace_runs :: "nat list \<Rightarrow> nat list" where
  "replace_runs [] = []"
| "replace_runs (c # cs) =
     (if is_az09 c then c # replace_runs cs
      else 45 # replace_runs (dropWhile (\<lambda>d. \<not> is_az09 d) cs))"
  by pat_completeness auto
termination
  by (relation "measure length") (auto simp: le_imp_less_Suc length_dropWhile_le)

definition strip_dashes :: "nat list \<Rightarrow> nat list" where
  "strip_dashes s = rev (dropWhile (\<lambda>c. c = 45) (rev (dropWhile (\<lambda>c. c = 45) s)))"

definition sanitizedFileName :: "(nat list \<Rightarrow> nat list) \<Rightarrow> nat list \<Rightarrow> nat list" where
  "sanitizedFileName lower title = strip_dashes (replace_runs (lower title))"

text \<open>
  The specification's wording, for a title that is already in lower case: cut it into
  its maximal runs of alphanumeric and of other characters, put one dash for every run of
  the second sort, and trim the dashes at both ends. Which characters count as
  alphanumeric is the first argument.
\<close>

function runs :: "('a \<Rightarrow> bool) \<Rightarrow> 'a list \<Rightarrow> 'a list list" where
  "runs P [] = []"
| "runs P (x # xs) =
     (x # takeWhile (\<lambda>y. P y = P x) xs) # runs P (dropWhile (\<lambda>y. P y = P x) xs)"
  by pat_completeness auto
termination
  by (relation "measure (\<lambda>(P, xs). length xs)") (auto simp: le_imp_less_Suc length_dropWhile_le)

fun drop_leading_dashes :: "nat list \<Rightarrow> nat list" where
  "drop_leading_dashes [] = []"
| "drop_leading_dashes (c # cs) = (if c = 45 then drop_leading_dashes cs else c # cs)"

definition collapse_and_trim :: "(nat \<Rightarrow> bool) \<Rightarrow> nat list \<Rightarrow> nat list" where
  "collapse_and_trim alphanumeric lowered =
     (let collapsed =
        concat (map (\<lambda>run. if alphanumeric (hd run) then run else [45])
                  (runs alphanumeric lowered))
      in drop_leading_dashes (rev (drop_leading_dashes (rev collapsed))))"

text \<open>
  The letters and decimal digits among the first 256 characters of Unicode (Basic Latin
  and Latin-1 Supplement); the table is not continued beyond them.
\<close>

definition latin1_alphanumeric :: "nat \<Rightarrow> bool" where
  "latin1_alphanumeric c =
     ((48 \<le> c \<and> c \<le> 57) \<or> (65 \<le> c \<and> c \<le> 90) \<or> (97 \<le> c \<and> c \<le> 122)
      \<or> c = 170 \<or> c = 181 \<or> c = 186 \<or> (192 \<le> c \<and> c \<le> 214) \<or> (216 \<le> c \<and> c \<le> 246)
      \<or> (248 \<le> c \<and> c \<le> 255))"

section \<open>Example inputs\<close>

text \<open>
  A number printer for the examples: the decimal numeral of the integer part, which is
  what JavaScript prints for the integers the examples use.
\<close>

definition nstr_integer :: "real \<Rightarrow> string" where
  "nstr_integer v = int_toString 10 \<lfloor>v\<rfloor>"

text \<open>
  The doubles nearest to 0.7, 0.3 and 0.9. The first is a little below 0.7, and its exact
  product with 255 a little below 178.5.
\<close>

definition double_0_7 :: real where
  "double_0_7 = 3152519739159347 / 4503599627370496"

definition double_0_3 :: real where
  "double_0_3 = 5404319552844595 / 18014398509481984"

definition double_0_9 :: real where
  "double_0_9 = 8106479329266893 / 9007199254740992"

definition plain_props :: "string \<Rightarrow> string \<Rightarrow> node_props" where
  "plain_props nm ty =
     \<lparr>node_name = Some nm, node_type = ty, absoluteBoundingBox = None, node_size = None,
      layoutAlign = None, layoutGrow = None, paddingLeft = None, paddingTop = None,
      paddingRight = None, paddingBottom = None, itemSpacing = None, fills = [],
      style = None, strokes = [], strokeWeight = None, cornerRadius = None, effects = [],
      characters = None\<rparr>"

definition white_fill_zero_opacity :: paint where
  "white_fill_zero_opacity =
     \<lparr>paint_type = ''SOLID'', paint_color = Some \<lparr>rgb_r = 1, rgb_g = 1, rgb_b = 1\<rparr>,
      paint_opacity = Some 0\<rparr>"

text \<open>A root frame with a fill and a bounding box, holding a text and a group of two.\<close>

definition login_props :: node_props where
  "login_props =
     (plain_props ''Login Screen'' ''FRAME'')
       \<lparr>absoluteBoundingBox := Some \<lparr>box_x = 0, box_y = 0, box_width = 320, box_height = 480\<rparr>,
        layoutAlign := Some ''STRETCH'', layoutGrow := Some 1, paddingLeft := Some 8,
        itemSpacing := Some 4, fills := [white_fill_zero_opacity]\<rparr>"

definition login_children :: "node list" where
  "login_children =
     [Node (plain_props ''Email'' ''TEXT'') [],
      Node (plain_props ''Actions'' ''GROUP'')
        [Node (plain_props ''Login Button'' ''RECTANGLE'') [],
         Node (plain_props ''Cancel'' ''RECTANGLE'') []]]"

definition login_screen :: node where
  "login_screen = Node login_props login_children"







text \<open>A root with six children: seven nodes in a fetched array of one node.\<close>

definition seven_node_tree :: node where
  "seven_node_tree =
     Node (plain_props ''Screen'' ''FRAME'')
       (map (\<lambda>nm. Node (plain_props nm ''RECTANGLE'') [])
          [''a'', ''b'', ''c'', ''d'', ''e'', ''f''])"

text \<open>
  JavaScript's lowercasing on the characters of the examples: the ASCII capital letters,
  and the two characters whose lower case holds an ASCII letter, U+0130 (to \<open>i\<close> and
  the combining dot U+0307) and U+212A (to \<open>k\<close>); every other code unit of the examples
  is in lower case already.
\<close>

definition sample_lower_unit :: "nat \<Rightarrow> nat list" where
  "sample_lower_unit c =
     (if 65 \<le> c \<and> c \<le> 90 then [c + 32]
      else if c = 304 then [105, 775]
      else if c = 8490 then [107]
      else [c])"

definition sample_lower :: "nat list \<Rightarrow> nat list" where
  "sample_lower s = concat (map sample_lower_unit s)"

text \<open>The title \<open>caf\<close> followed by U+00E9, and a Turkish title with U+0130 and U+0131.\<close>

definition cafe_title :: "nat list" where
  "cafe_title = units ''caf'' @ [233]"

definition istanbul_title :: "nat list" where
  "istanbul_title = [304] @ units ''stanbul Ekran'' @ [305]"


section \<open>Properties of the number model\<close>

lemma half_powi: "(2::real) powi e / 2 = 2 powi (e - 1)"
  by (simp add: power_int_diff)

lemma binade_range: "p = 2 powi e \<Longrightarrow> e - int fuel \<le> binade fuel e p x \<and> binade fuel e p x \<le> e"
proof (induction fuel arbitrary: e p)
  case 0
  then show ?case by simp
next
  case (Suc fuel)
  have "e - 1 - int fuel \<le> binade fuel (e - 1) (p / 2) x \<and> binade fuel (e - 1) (p / 2) x \<le> e - 1"
    by (rule Suc.IH) (simp add: Suc.prems half_powi)
  then show ?case by simp
qed

lemma binade_below:
  "p = 2 powi e \<Longrightarrow> 2 powi (binade fuel e p x) \<le> x \<or> binade fuel e p x = e - int fuel"
proof (induction fuel arbitrary: e p)
  case 0
  then show ?case by simp
next
  case (Suc fuel)
  have "2 powi (binade fuel (e - 1) (p / 2) x) \<le> x \<or> binade fuel (e - 1) (p / 2) x = e - 1 - int fuel"
    by (rule Suc.IH) (simp add: Suc.prems half_powi)
  then show ?case using Suc.prems by auto
qed

lemma binade_exact:
  "p = 2 powi e0 \<Longrightarrow> e \<le> e0 \<Longrightarrow> e0 - int fuel \<le> e \<Longrightarrow> 2 powi e \<le> x \<Longrightarrow> x < 2 powi (e + 1)
   \<Longrightarrow> binade fuel e0 p x = e"
proof (induction fuel arbitrary: e0 p)
  case 0
  then show ?case by simp
next
  case (Suc fuel)
  show ?case
  proof (cases "p \<le> x")
    case True
    then have "(2::real) powi e0 < 2 powi (e + 1)"
      using Suc.prems by simp
    then have "e0 < e + 1"
      by (metis not_less one_le_numeral power_int_increasing)
    then show ?thesis
      using True Suc.prems by simp
  next
    case False
    then have "(2::real) powi e < 2 powi e0"
      using Suc.prems by simp
    then have "e < e0"
      by (metis not_less one_le_numeral power_int_increasing)
    then have "binade fuel (e0 - 1) (p / 2) x = e"
      using Suc.prems by (intro Suc.IH) (simp_all add: half_powi)
    then show ?thesis
      using False by simp
  qed
qed

lemma exponent_of_eq:
  "2 powi e \<le> x \<Longrightarrow> x < 2 powi (e + 1) \<Longrightarrow> - 1022 \<le> e \<Longrightarrow> e \<le> 1023 \<Longrightarrow> exponent_of x = e"
  unfolding exponent_of_def by (rule binade_exact) simp_all

lemma exponent_of_range: "- 1022 \<le> exponent_of x \<and> exponent_of x \<le> 1023"
  unfolding exponent_of_def using binade_range [of "2 ^ 1023" 1023 2045 x] by simp

lemma exponent_of_below: "2 powi (exponent_of x) \<le> x \<or> exponent_of x = - 1022"
  unfolding exponent_of_def using binade_below [of "2 ^ 1023" 1023 2045 x] by simp

lemma exponent_of_bound:
  assumes "x < 2 powi k" and "- 1022 < k"
  shows "exponent_of x < k"
proof -
  consider "2 powi (exponent_of x) \<le> x" | "exponent_of x = - 1022"
    using exponent_of_below by blast
  then show ?thesis
  proof cases
    case 1
    then have "(2::real) powi (exponent_of x) < 2 powi k"
      using assms by simp
    then show ?thesis
      by (metis not_less one_le_numeral power_int_increasing)
  next
    case 2
    then show ?thesis
      using assms by simp
  qed
qed

lemma round_half_even_int: "round_half_even (of_int m) = m"
  by (simp add: round_half_even_def)

lemma round_half_even_cases:
  "round_half_even y = \<lfloor>y\<rfloor> \<and> y - of_int \<lfloor>y\<rfloor> \<le> 1 / 2
   \<or> round_half_even y = \<lfloor>y\<rfloor> + 1 \<and> 1 / 2 \<le> y - of_int \<lfloor>y\<rfloor>"
  unfolding round_half_even_def Let_def by (simp split: if_splits)

lemma round_half_even_near: "\<bar>of_int (round_half_even y) - y\<bar> \<le> 1 / 2"
proof -
  have "of_int \<lfloor>y\<rfloor> \<le> y" and "y < of_int \<lfloor>y\<rfloor> + 1"
    by linarith+
  then show ?thesis
    using round_half_even_cases [of y] by (elim disjE conjE) (simp_all add: abs_if, linarith+)
qed

lemma round_half_even_between:
  assumes "of_int lo \<le> y" and "y \<le> of_int hi"
  shows "lo \<le> round_half_even y \<and> round_half_even y \<le> hi"
proof -
  have low: "lo \<le> \<lfloor>y\<rfloor>"
    using assms(1) by (simp add: le_floor_iff)
  have mid: "\<lfloor>y\<rfloor> \<le> hi"
    using assms(2) by (simp add: floor_le_iff)
  have high: "\<lfloor>y\<rfloor> + 1 \<le> hi" if "1 / 2 \<le> y - of_int \<lfloor>y\<rfloor>"
  proof -
    have "of_int \<lfloor>y\<rfloor> < y"
      using that by linarith
    then have "of_int \<lfloor>y\<rfloor> < (of_int hi :: real)"
      using assms(2) by linarith
    then show ?thesis
      by simp
  qed
  show ?thesis
    using round_half_even_cases [of y] low mid high by (elim disjE conjE) simp_all
qed

lemma below_two_53:
  fixes x :: real
  assumes "x \<le> of_int n" and "n < 2 ^ 53"
  shows "x < 2 powi 53"
proof -
  have "(of_int n :: real) < of_int (2 ^ 53)"
    using assms(2) by (simp only: of_int_less_iff)
  also have "(of_int (2 ^ 53) :: real) = 2 powi 53"
    by simp
  finally show ?thesis
    using assms(1) by simp
qed

text \<open>The unit in the last place of a positive number below \<open>2^53\<close> divides 1.\<close>

lemma ulp_divides_one:
  assumes "x < 2 powi 53"
  obtains m :: int where "0 < m" and "of_int m * 2 powi (exponent_of x - 52) = (1::real)"
proof -
  have "exponent_of x < 53"
    using assms by (rule exponent_of_bound) simp
  then have up: "0 \<le> 52 - exponent_of x"
    by simp
  have "2 powi (52 - exponent_of x) * 2 powi (exponent_of x - 52) = (1::real)"
    by (simp flip: power_int_add)
  moreover have "(2::real) powi (52 - exponent_of x) = of_int (2 ^ nat (52 - exponent_of x))"
    using up by (simp add: power_int_def)
  moreover have "(0::int) < 2 ^ nat (52 - exponent_of x)"
    by simp
  ultimately show ?thesis
    using that by metis
qed

lemma to_double_pos:
  "0 < x \<Longrightarrow> to_double x
     = of_int (round_half_even (x / 2 powi (exponent_of x - 52))) * 2 powi (exponent_of x - 52)"
  by (simp add: to_double_def Let_def)

lemma to_double_between:
  assumes "0 \<le> x" and "x \<le> of_int n" and "n < 2 ^ 53"
  shows "0 \<le> to_double x \<and> to_double x \<le> of_int n
         \<and> \<bar>to_double x - x\<bar> \<le> 2 powi (exponent_of x - 52) / 2"
proof (cases "x = 0")
  case True
  then show ?thesis
    using assms by (simp add: to_double_def)
next
  case False
  then have pos: "0 < x"
    using assms by simp
  define u :: real where "u = 2 powi (exponent_of x - 52)"
  have u_pos: "0 < u"
    by (simp add: u_def)
  obtain m :: int where m: "0 < m" "of_int m * u = 1"
    using ulp_divides_one [OF below_two_53 [OF assms(2,3)]] unfolding u_def by blast
  have inv: "y / u = y * of_int m" for y :: real
    using m(2) u_pos by (simp add: field_simps)
  have "of_int 0 \<le> x / u"
    using pos u_pos by simp
  moreover have "x / u \<le> of_int (n * m)"
    using assms(2) m(1) by (simp add: inv mult_right_mono)
  ultimately have r: "0 \<le> round_half_even (x / u) \<and> round_half_even (x / u) \<le> n * m"
    by (rule round_half_even_between)
  have td: "to_double x = of_int (round_half_even (x / u)) * u"
    using pos by (simp add: to_double_pos u_def)
  have "(of_int (round_half_even (x / u)) :: real) \<le> of_int (n * m)"
    using r by (simp only: of_int_le_iff)
  then have "of_int (round_half_even (x / u)) * u \<le> of_int (n * m) * u"
    using u_pos by (intro mult_right_mono) simp_all
  also have "\<dots> = of_int n * (of_int m * u)"
    by simp
  finally have upper: "to_double x \<le> of_int n"
    by (simp add: td m(2))
  have lower: "0 \<le> to_double x"
    using r u_pos by (simp add: td)
  have "\<bar>to_double x - x\<bar> = \<bar>(of_int (round_half_even (x / u)) - x / u) * u\<bar>"
    using u_pos by (simp add: td left_diff_distrib)
  also have "\<dots> = \<bar>of_int (round_half_even (x / u)) - x / u\<bar> * u"
    using u_pos by (simp add: abs_mult)
  also have "\<dots> \<le> 1 / 2 * u"
    using round_half_even_near [of "x / u"] u_pos by (intro mult_right_mono) simp_all
  finally have "\<bar>to_double x - x\<bar> \<le> u / 2"
    by simp
  then show ?thesis
    using lower upper by (simp add: u_def)
qed

lemma to_double_int:
  assumes "0 \<le> n" and "n < 2 ^ 53"
  shows "to_double (of_int n) = of_int n"
proof (cases "n = 0")
  case True
  then show ?thesis by (simp add: to_double_def)
next
  case False
  then have pos: "0 < (of_int n :: real)"
    using assms by simp
  define u :: real where "u = 2 powi (exponent_of (of_int n) - 52)"
  have u_pos: "0 < u"
    by (simp add: u_def)
  have "(of_int n :: real) \<le> of_int n"
    by simp
  then obtain m :: int where m: "0 < m" "of_int m * u = 1"
    using ulp_divides_one [OF below_two_53 [OF _ assms(2)]] unfolding u_def by blast
  have "of_int n / u = of_int n * of_int m"
    using m(2) u_pos by (simp add: field_simps)
  then have "of_int n / u = of_int (n * m)"
    by simp
  then have "round_half_even (of_int n / u) = n * m"
    by (simp only: round_half_even_int)
  then have "to_double (of_int n) = of_int (n * m) * u"
    using pos by (simp add: to_double_pos u_def)
  also have "\<dots> = of_int n * (of_int m * u)"
    by simp
  finally show ?thesis
    by (simp add: m(2))
qed

lemma to_double_100: "to_double 100 = 100"
  using to_double_int [of 100] by simp

lemma to_double_255: "to_double 255 = 255"
  using to_double_int [of 255] by simp

section \<open>Properties of the ColorCodec\<close>

lemma nat_toString_one_digit: "n < 16 \<Longrightarrow> nat_toString 16 n = [digit_char n]"
  by (simp add: nat_toString.simps)

lemma nat_toString_two_digits:
  "16 \<le> n \<Longrightarrow> n < 256 \<Longrightarrow> nat_toString 16 n = [digit_char (n div 16), digit_char (n mod 16)]"
  by (subst nat_toString.simps) (simp add: nat_toString_one_digit less_mult_imp_div_less)

lemma pad_byte:
  assumes "0 \<le> n" and "n < 256"
  shows "(let hex = int_toString 16 n in if length hex = 1 then ''0'' @ hex else hex)
         = two_hex_digits n"
proof (cases "nat n < 16")
  case True
  then show ?thesis
    using assms
    by (simp add: int_toString_def nat_toString_one_digit two_hex_digits_def digit_char_def)
next
  case False
  then have "16 \<le> nat n" and "nat n < 256"
    using assms by auto
  then show ?thesis
    using assms by (simp add: int_toString_def nat_toString_two_digits two_hex_digits_def)
qed

lemma channel_product:
  assumes "0 \<le> v" and "v \<le> 1"
  shows "0 \<le> to_double (v * 255) \<and> to_double (v * 255) \<le> 255
         \<and> \<bar>to_double (v * 255) - v * 255\<bar> \<le> 1 / 2 ^ 46"
proof -
  have range: "0 \<le> v * 255" "v * 255 \<le> of_int 255"
    using assms by simp_all
  have near: "0 \<le> to_double (v * 255) \<and> to_double (v * 255) \<le> of_int 255
         \<and> \<bar>to_double (v * 255) - v * 255\<bar> \<le> 2 powi (exponent_of (v * 255) - 52) / 2"
    using range by (rule to_double_between) simp
  have "v * 255 < 2 powi 8"
    using range by simp
  then have "exponent_of (v * 255) < 8"
    by (rule exponent_of_bound) simp
  then have "(2::real) powi (exponent_of (v * 255) - 52) \<le> 2 powi (- 45)"
    by (intro power_int_increasing) simp_all
  also have "(2::real) powi (- 45) = 2 / 2 ^ 46"
    by (simp add: power_int_minus_divide)
  finally have "2 powi (exponent_of (v * 255) - 52) / 2 \<le> (1::real) / 2 ^ 46"
    by simp
  then show ?thesis
    using near by simp
qed

lemma channel_byte_range:
  assumes "0 \<le> v" and "v \<le> 1"
  shows "0 \<le> channel_byte v \<and> channel_byte v \<le> 255
         \<and> \<bar>of_int (channel_byte v) - v * 255\<bar> \<le> 1 / 2 + 1 / 2 ^ 46"
proof -
  define d where "d = to_double (v * 255)"
  have d: "0 \<le> d" "d \<le> 255" "\<bar>d - v * 255\<bar> \<le> 1 / 2 ^ 46"
    using channel_product [OF assms] by (simp_all add: d_def)
  have byte: "channel_byte v = \<lfloor>d + 1 / 2\<rfloor>"
    by (simp add: channel_byte_def Math_round_def d_def)
  have low: "0 \<le> \<lfloor>d + 1 / 2\<rfloor>"
    using d(1) by simp
  have high: "\<lfloor>d + 1 / 2\<rfloor> \<le> 255"
    using d(2) by (simp add: floor_le_iff)
  have "of_int \<lfloor>d + 1 / 2\<rfloor> \<le> d + 1 / 2" and "d + 1 / 2 < of_int \<lfloor>d + 1 / 2\<rfloor> + 1"
    by linarith+
  then have "\<bar>of_int \<lfloor>d + 1 / 2\<rfloor> - d\<bar> \<le> 1 / 2"
    by linarith
  then have "\<bar>of_int \<lfloor>d + 1 / 2\<rfloor> - v * 255\<bar> \<le> 1 / 2 + 1 / 2 ^ 46"
    using d(3) by linarith
  then show ?thesis
    using low high by (simp add: byte)
qed

lemma toHex_channel:
  "0 \<le> v \<Longrightarrow> v \<le> 1 \<Longrightarrow> toHex v = two_hex_digits (channel_byte v)"
  unfolding toHex_def
  using pad_byte [of "channel_byte v"] channel_byte_range [of v]
  by (simp add: channel_byte_def)

lemma digit_char_is_hex: "d < 16 \<Longrightarrow> digit_char d \<in> set ''0123456789abcdef''"
  unfolding digit_char_def by (simp only: nth_mem length_Cons list.size)

lemma two_hex_digits_are_hex:
  assumes "0 \<le> n" and "n < 256"
  shows "set (two_hex_digits n) \<subseteq> set ''0123456789abcdef''"
proof -
  have "nat n div 16 < 16"
    using assms by (simp add: less_mult_imp_div_less)
  then have "digit_char (nat n div 16) \<in> set ''0123456789abcdef''"
    by (rule digit_char_is_hex)
  moreover have "digit_char (nat n mod 16) \<in> set ''0123456789abcdef''"
    by (rule digit_char_is_hex) simp
  ultimately show ?thesis
    unfolding two_hex_digits_def by (simp only: set_simps insert_subset empty_subsetI simp_thms)
qed

lemma toHex_channel_is_hex:
  "0 \<le> v \<Longrightarrow> v \<le> 1 \<Longrightarrow> set (toHex v) \<subseteq> set ''0123456789abcdef''"
  using two_hex_digits_are_hex [of "channel_byte v"] channel_byte_range [of v]
  by (simp only: toHex_channel) simp

text \<open>The three products of the example, in double precision.\<close>

lemma product_0_7: "to_double (double_0_7 * 255) = 357 / 2"
proof -
  have "exponent_of (double_0_7 * 255) = 7"
    by (rule exponent_of_eq) (simp_all add: double_0_7_def)
  moreover have "0 < double_0_7 * 255"
    by (simp add: double_0_7_def)
  ultimately show ?thesis
    by (simp add: to_double_pos) (simp add: double_0_7_def round_half_even_def)
qed

lemma product_0_3: "to_double (double_0_3 * 255) = 153 / 2"
proof -
  have "exponent_of (double_0_3 * 255) = 6"
    by (rule exponent_of_eq) (simp_all add: double_0_3_def)
  moreover have "0 < double_0_3 * 255"
    by (simp add: double_0_3_def)
  ultimately show ?thesis
    by (simp add: to_double_pos) (simp add: double_0_3_def round_half_even_def)
qed

lemma product_0_9: "to_double (double_0_9 * 255) = 459 / 2"
proof -
  have "exponent_of (double_0_9 * 255) = 7"
    by (rule exponent_of_eq) (simp_all add: double_0_9_def)
  moreover have "0 < double_0_9 * 255"
    by (simp add: double_0_9_def)
  ultimately show ?thesis
    by (simp add: to_double_pos) (simp add: double_0_9_def round_half_even_def)
qed

lemma hex_179: "int_toString 16 179 = ''b3''"
  by (simp add: int_toString_def nat_toString.simps digit_char_def)

text \<open>
  The rounding of the product to a double shows in the digits. The double nearest to 0.7
  has an exact product with 255 below 178.5, whose nearest integer is 178, digits \<open>b2\<close>;
  the program rounds the product to the double 178.5 first, and \<^verbatim>\<open>Math.round\<close> of that
  is 179, digits \<open>b3\<close>, which is also what the decimal 0.7 gives.
\<close>

lemma rgbToHex_rounds_the_double_product:
  "0 \<le> double_0_7 \<and> double_0_7 \<le> 1
   \<and> rgbToHex (Some \<lparr>rgb_r = double_0_7, rgb_g = 0, rgb_b = 0\<rparr>) = ''#b30000''
   \<and> ''#'' @ two_hex_digits (round (double_0_7 * 255)) @ two_hex_digits (round (0 * 255))
        @ two_hex_digits (round (0 * 255))
       = ''#b20000''"
proof -
  have "toHex double_0_7 = ''b3''"
    by (simp add: toHex_def product_0_7 Math_round_def hex_179)
  moreover have "toHex 0 = ''00''"
    by (simp add: toHex_def to_double_def Math_round_def int_toString_def nat_toString.simps
        digit_char_def)
  moreover have "round (double_0_7 * 255) = 178"
    by (simp add: double_0_7_def round_def)
  ultimately show ?thesis
    by (simp add: rgbToHex_def two_hex_digits_def digit_char_def) (simp add: double_0_7_def)
qed

text \<open>
  Claim C4. For a colour whose three channels lie in the interval from 0 to 1,
  \<^verbatim>\<open>rgbToHex\<close> returns the character \<open>#\<close> followed, for each channel in the order red,
  green, blue, by two hexadecimal digits (zero-padded): the digits of the channel scaled by
  255 and rounded, \<^verbatim>\<open>Math.round(value * 255)\<close> in the arithmetic of the program. This
  integer lies between 0 and 255 and differs from the exact product by at most
  \<open>1/2 + 2^-46\<close>. The result has seven characters. For an absent colour the result is
  \<open>#000000\<close>.
\<close>

theorem rgbToHex_in_range:
  "(0 \<le> rgb_r c \<and> rgb_r c \<le> 1 \<and> 0 \<le> rgb_g c \<and> rgb_g c \<le> 1 \<and> 0 \<le> rgb_b c \<and> rgb_b c \<le> 1 \<longrightarrow>
      rgbToHex (Some c) =
        ''#'' @ two_hex_digits (channel_byte (rgb_r c)) @ two_hex_digits (channel_byte (rgb_g c))
          @ two_hex_digits (channel_byte (rgb_b c))
      \<and> length (rgbToHex (Some c)) = 7
      \<and> set (tl (rgbToHex (Some c))) \<subseteq> set ''0123456789abcdef'')
   \<and> (0 \<le> v \<and> v \<le> 1 \<longrightarrow>
        channel_byte v = \<lfloor>to_double (v * 255) + 1 / 2\<rfloor>
        \<and> 0 \<le> channel_byte v \<and> channel_byte v \<le> 255
        \<and> \<bar>of_int (channel_byte v) - v * 255\<bar> \<le> 1 / 2 + 1 / 2 ^ 46)
   \<and> rgbToHex None = ''#000000''"
proof (intro conjI impI)
  assume range: "0 \<le> rgb_r c \<and> rgb_r c \<le> 1 \<and> 0 \<le> rgb_g c \<and> rgb_g c \<le> 1 \<and> 0 \<le> rgb_b c \<and> rgb_b c \<le> 1"
  then show eq: "rgbToHex (Some c) =
        ''#'' @ two_hex_digits (channel_byte (rgb_r c)) @ two_hex_digits (channel_byte (rgb_g c))
          @ two_hex_digits (channel_byte (rgb_b c))"
    by (simp add: rgbToHex_def toHex_channel)
  show "length (rgbToHex (Some c)) = 7"
    by (simp add: eq two_hex_digits_def)
  have "set (toHex (rgb_r c)) \<subseteq> set ''0123456789abcdef''"
    and "set (toHex (rgb_g c)) \<subseteq> set ''0123456789abcdef''"
    and "set (toHex (rgb_b c)) \<subseteq> set ''0123456789abcdef''"
    using range by (simp_all only: toHex_channel_is_hex)
  then show "set (tl (rgbToHex (Some c))) \<subseteq> set ''0123456789abcdef''"
    by (simp only: rgbToHex_def option.case append_Cons append_Nil list.sel set_append Un_subset_iff simp_thms)
next
  assume "0 \<le> v \<and> v \<le> 1"
  then have v: "0 \<le> v" "v \<le> 1"
    by simp_all
  show "channel_byte v = \<lfloor>to_double (v * 255) + 1 / 2\<rfloor>"
    by (simp add: channel_byte_def Math_round_def)
  show "0 \<le> channel_byte v" and "channel_byte v \<le> 255"
    and "\<bar>of_int (channel_byte v) - v * 255\<bar> \<le> 1 / 2 + 1 / 2 ^ 46"
    using channel_byte_range [OF v] by simp_all
next
  show "rgbToHex None = ''#000000''"
    by (simp add: rgbToHex_def)
qed

theorem rgbToHex_in_range_witness:
  "0 \<le> double_0_7 \<and> double_0_7 \<le> 1 \<and> 0 \<le> double_0_3 \<and> double_0_3 \<le> 1
   \<and> 0 \<le> double_0_9 \<and> double_0_9 \<le> 1
   \<and> rgbToHex (Some \<lparr>rgb_r = double_0_7, rgb_g = double_0_3, rgb_b = double_0_9\<rparr>) = ''#b34de6''
   \<and> channel_byte double_0_7 = 179"
proof -
  have chans: "0 \<le> double_0_7 \<and> double_0_7 \<le> 1 \<and> 0 \<le> double_0_3 \<and> double_0_3 \<le> 1
     \<and> 0 \<le> double_0_9 \<and> double_0_9 \<le> 1"
    by (simp add: double_0_7_def double_0_3_def double_0_9_def)
  have bytes: "channel_byte double_0_7 = 179" "channel_byte double_0_3 = 77"
      "channel_byte double_0_9 = 230"
    by (simp_all add: channel_byte_def Math_round_def product_0_7 product_0_3 product_0_9)
  show ?thesis
    using rgbToHex_in_range
      [of "\<lparr>rgb_r = double_0_7, rgb_g = double_0_3, rgb_b = double_0_9\<rparr>" double_0_7]
      chans bytes
    by (simp add: two_hex_digits_def digit_char_def)
qed

section \<open>Properties of the PurposeClassifier\<close>

text \<open>
  Claim C3. \<^verbatim>\<open>inferElementPurpose\<close> is a function of the name and the type alone that
  returns the label of the first matching rule of the ordered rule list; for a node of
  type TEXT it returns \<open>Text element\<close> whatever the name is, in particular for the name
  \<open>Login Button\<close>.
\<close>

theorem inferElementPurpose_first_match:
  "first_match purpose_rules (toLowerCase (or_str nm '''')) ty = Some (inferElementPurpose nm ty)
   \<and> inferElementPurpose nm ''TEXT'' = ''Text element''
   \<and> inferElementPurpose (Some ''Login Button'') ''TEXT'' = ''Text element''"
  by (simp add: purpose_rules_def inferElementPurpose_def Let_def)

section \<open>Properties of the ExportOrchestrator\<close>

lemma array_find_falsy: "\<not> truthy (array_find (\<lambda>success. \<not> truthy success) downloads)"
  by (induction downloads) simp_all

lemma saveSuccess_always: "saveSuccess downloads"
  by (simp add: saveSuccess_def array_find_falsy)

text \<open>
  Claim C1, at the input of the specification's own example: two fill items that
  succeeded and one render item that failed. Not every item succeeded, and the handler
  still computes \<^verbatim>\<open>saveSuccess\<close> as true and reports a success for three images:
  \<^verbatim>\<open>find\<close> returns the failed outcome itself, which is falsy, and its negation is true.
\<close>

theorem saveSuccess_with_failed_render:
  "\<not> every_item_succeeded ([JBool True, JBool True] @ [JBool False])
   \<and> saveSuccess ([JBool True, JBool True] @ [JBool False])
   \<and> download_result_text [JBool True, JBool True] [JBool False]
       = ''Success, 3 images downloaded: true, true, false''"
  by (simp add: every_item_succeeded_def saveSuccess_def download_result_text_def
      array_join_def int_toString_def nat_toString.simps digit_char_def)






section \<open>Properties of the DocumentAssembler\<close>

lemma count_nodes_list_leaves:
  "count_nodes_list (map (\<lambda>nm. Node (plain_props nm ty) []) names) = length names"
  by (induction names) simp_all

text \<open>
  Claim C6, at a failing input. The tree \<^term>\<open>seven_node_tree\<close> has seven nodes, so that
  the label by total node count is \<open>High\<close>. The tool, which is given the fetched array
  holding this one tree, prints \<open>Low\<close> and calls the length of the array, one, the total
  number of elements.
\<close>

theorem complexity_line_seven_nodes:
  "count_nodes seven_node_tree = 7
   \<and> complexity_by_node_count seven_node_tree = ''High''
   \<and> complexity_line [seven_node_tree] = Inr ''- **Complexity Level**: Low (1 total elements)''"
  by (simp add: seven_node_tree_def count_nodes_list_leaves complexity_by_node_count_def
      complexity_level_def complexity_line_def int_toString_def nat_toString.simps digit_char_def)

lemma runs_nonempty: "r \<in> set (runs P xs) \<Longrightarrow> r \<noteq> [] \<and> set r \<subseteq> set xs"
proof (induction P xs rule: runs.induct)
  case (1 P)
  then show ?case by simp
next
  case (2 P x xs)
  let ?same = "\<lambda>y. P y = P x"
  from 2(2) consider
    (first) "r = x # takeWhile ?same xs" | (later) "r \<in> set (runs P (dropWhile ?same xs))"
    by auto
  then show ?case
  proof cases
    case first
    have "set (takeWhile ?same xs) \<subseteq> set xs"
      by (rule subsetI) (rule set_takeWhileD [THEN conjunct1])
    then show ?thesis
      using first by auto
  next
    case later
    then have "r \<noteq> [] \<and> set r \<subseteq> set (dropWhile ?same xs)"
      by (rule 2(1))
    moreover have "set (dropWhile ?same xs) \<subseteq> set xs"
      by (rule subsetI) (rule set_dropWhileD)
    ultimately show ?thesis
      by auto
  qed
qed

lemma replace_runs_keep: "\<forall>c \<in> set xs. is_az09 c \<Longrightarrow> replace_runs (xs @ ys) = xs @ replace_runs ys"
  by (induction xs) simp_all

lemma replace_runs_as_runs:
  "replace_runs s = concat (map (\<lambda>run. if is_az09 (hd run) then run else [45]) (runs is_az09 s))"
proof (induction s rule: length_induct)
  case (1 s)
  show ?case
  proof (cases s)
    case Nil
    then show ?thesis by simp
  next
    case (Cons c cs)
    show ?thesis
    proof (cases "is_az09 c")
      case True
      let ?run = "takeWhile is_az09 cs" and ?rest = "dropWhile is_az09 cs"
      have eqP: "(\<lambda>y. is_az09 y = is_az09 c) = is_az09"
        using True by auto
      have "length ?rest < length s"
        using Cons by (simp add: le_imp_less_Suc length_dropWhile_le)
      then have ih: "replace_runs ?rest
          = concat (map (\<lambda>run. if is_az09 (hd run) then run else [45]) (runs is_az09 ?rest))"
        using 1 by blast
      have "replace_runs s = replace_runs ((c # ?run) @ ?rest)"
        using Cons by simp
      also have "\<dots> = (c # ?run) @ replace_runs ?rest"
        using True by (intro replace_runs_keep) (auto dest: set_takeWhileD)
      finally show ?thesis
        using Cons True by (simp add: eqP ih)
    next
      case False
      let ?rest = "dropWhile (\<lambda>d. \<not> is_az09 d) cs"
      have eqP: "(\<lambda>y. is_az09 y = is_az09 c) = (\<lambda>d. \<not> is_az09 d)"
        using False by auto
      have "length ?rest < length s"
        using Cons by (simp add: le_imp_less_Suc length_dropWhile_le)
      then have ih: "replace_runs ?rest
          = concat (map (\<lambda>run. if is_az09 (hd run) then run else [45]) (runs is_az09 ?rest))"
        using 1 by blast
      show ?thesis
        using Cons False by (simp add: eqP ih)
    qed
  qed
qed

lemma strip_trailing_Cons:
  "rev (dropWhile P (rev (x # xs)))
     = (if P x \<and> (\<forall>y \<in> set xs. P y) then [] else x # rev (dropWhile P (rev xs)))"
  by (auto simp add: dropWhile_append)

lemma trim_commute:
  "dropWhile P (rev (dropWhile P (rev s))) = rev (dropWhile P (rev (dropWhile P s)))"
proof (induction s)
  case Nil
  then show ?case by simp
next
  case (Cons x xs)
  show ?case
  proof (cases "P x")
    case True
    then show ?thesis
      using Cons by (simp only: strip_trailing_Cons dropWhile.simps) (auto dest: set_dropWhileD)
  next
    case False
    have "dropWhile P (rev (dropWhile P (rev (x # xs))))
            = dropWhile P (x # rev (dropWhile P (rev xs)))"
      using False by (simp only: strip_trailing_Cons simp_thms if_False)
    also have "\<dots> = x # rev (dropWhile P (rev xs))"
      using False by simp
    also have "\<dots> = rev (dropWhile P (rev (x # xs)))"
      using False by (simp only: strip_trailing_Cons simp_thms if_False)
    also have "\<dots> = rev (dropWhile P (rev (dropWhile P (x # xs))))"
      using False by simp
    finally show ?thesis .
  qed
qed

lemma drop_leading_dashes_dropWhile: "drop_leading_dashes s = dropWhile (\<lambda>c. c = 45) s"
  by (induction s) simp_all

lemma sanitized_as_collapse:
  "strip_dashes (replace_runs s) = collapse_and_trim is_az09 s"
  by (simp add: collapse_and_trim_def strip_dashes_def drop_leading_dashes_dropWhile
      replace_runs_as_runs trim_commute)

lemma units_login: "units ''Login Screen!! v2'' = [76, 111, 103, 105, 110, 32, 83, 99, 114, 101, 101, 110, 33, 33, 32, 118, 50]"
  by (simp add: units_def)

lemma units_login_lowered:
  "units ''login screen!! v2'' = [108, 111, 103, 105, 110, 32, 115, 99, 114, 101, 101, 110, 33, 33, 32, 118, 50]"
  by (simp add: units_def)

lemma units_login_sanitized:
  "units ''login-screen-v2'' = [108, 111, 103, 105, 110, 45, 115, 99, 114, 101, 101, 110, 45, 118, 50]"
  by (simp add: units_def)

lemma sanitize_login:
  "strip_dashes (replace_runs (units ''login screen!! v2'')) = units ''login-screen-v2''"
  unfolding units_login_lowered units_login_sanitized
  by (simp add: is_az09_def strip_dashes_def)

text \<open>
  Claim C7 fails as it is worded, for a title with a letter outside ASCII. The title
  \<open>caf\<close> followed by U+00E9 is in lower case and all its characters are letters, so that
  collapsing the runs of non-alphanumeric characters leaves it as it is; the program, for
  which the letter U+00E9 is not among \<open>a-z0-9\<close>, puts a dash for it and trims the dash:
  the file name is \<open>caf\<close>.
\<close>

theorem sanitizedFileName_counterexample:
  "sample_lower cafe_title = cafe_title
   \<and> list_all latin1_alphanumeric cafe_title
   \<and> collapse_and_trim latin1_alphanumeric (sample_lower cafe_title) = cafe_title
   \<and> sanitizedFileName sample_lower cafe_title = units ''caf''
   \<and> sanitizedFileName sample_lower cafe_title \<noteq> cafe_title"
proof -
  have title: "cafe_title = [99, 97, 102, 233]"
    by (simp add: cafe_title_def units_def)
  have caf: "units ''caf'' = [99, 97, 102]"
    by (simp add: units_def)
  have lowered: "sample_lower cafe_title = cafe_title"
    by (simp add: title sample_lower_def sample_lower_unit_def)
  have letters: "list_all latin1_alphanumeric cafe_title"
    by (simp add: title latin1_alphanumeric_def)
  have spec: "collapse_and_trim latin1_alphanumeric cafe_title = cafe_title"
    unfolding title collapse_and_trim_def
    by (simp add: latin1_alphanumeric_def)
  have code: "sanitizedFileName sample_lower cafe_title = units ''caf''"
    unfolding sanitizedFileName_def lowered
    by (simp add: title caf is_az09_def strip_dashes_def)
  show ?thesis
    using lowered letters spec code by (simp add: title caf)
qed

text \<open>
  Claim C7, amended. For every title, the sanitized file name is the title in lower case,
  as \<^verbatim>\<open>toLowerCase\<close> gives it, with every maximal run of characters other than the
  letters \<open>a\<close> to \<open>z\<close> and the digits \<open>0\<close> to \<open>9\<close> replaced by one dash and the dashes at both
  ends removed; the title \<open>Login Screen!! v2\<close>, whose lower case is \<open>login screen!! v2\<close>,
  gives \<open>login-screen-v2\<close>.
\<close>

theorem sanitizedFileName_collapse_and_trim:
  "sanitizedFileName lower title = collapse_and_trim is_az09 (lower title)
   \<and> (lower (units ''Login Screen!! v2'') = units ''login screen!! v2'' \<longrightarrow>
        sanitizedFileName lower (units ''Login Screen!! v2'') = units ''login-screen-v2'')"
  by (simp add: sanitizedFileName_def sanitized_as_collapse [symmetric] sanitize_login)

theorem sanitizedFileName_collapse_and_trim_witness:
  "sample_lower (units ''Login Screen!! v2'') = units ''login screen!! v2''
   \<and> sanitizedFileName sample_lower (units ''Login Screen!! v2'') = units ''login-screen-v2''
   \<and> sanitizedFileName sample_lower istanbul_title = units ''i-stanbul-ekran''"
proof -
  have lowered: "sample_lower (units ''Login Screen!! v2'') = units ''login screen!! v2''"
    unfolding units_login units_login_lowered
    by (simp add: sample_lower_def sample_lower_unit_def)
  have istanbul: "sample_lower istanbul_title
      = [105, 775, 115, 116, 97, 110, 98, 117, 108, 32, 101, 107, 114, 97, 110, 305]"
    by (simp add: istanbul_title_def units_def sample_lower_def sample_lower_unit_def)
  have turkish: "sanitizedFileName sample_lower istanbul_title = units ''i-stanbul-ekran''"
    unfolding sanitizedFileName_def istanbul
    by (simp add: is_az09_def strip_dashes_def units_def)
  have "sanitizedFileName sample_lower (units ''Login Screen!! v2'') = units ''login-screen-v2''"
    using sanitizedFileName_collapse_and_trim [of sample_lower "units ''Login Screen!! v2''"]
      lowered
    by blast
  then show ?thesis
    using lowered turkish by blast
qed

section \<open>Reading the description line by line\<close>


lemma lines_from_break: "lines_from line (CHR 0x0A # t) = line # lines_from [] t"
  by simp

lemma lines_from_char: "c \<noteq> CHR 0x0A \<Longrightarrow> lines_from line (c # t) = lines_from (line @ [c]) t"
  by simp


























subsection \<open>The marked lines of the sections\<close>
























subsection \<open>The header lines of a block and of a traversal\<close>















section \<open>Properties of the DescriptorEngine\<close>

subsection \<open>Which statements append to a block\<close>

















subsection \<open>Headers and the traversal\<close>





lemma headers_divider: "headers [divider level] = []"
  by (simp add: headers_def divider_def)





subsection \<open>The header lines of a description\<close>








lemma clean_plain_props: "line_free nm \<Longrightarrow> line_free ty \<Longrightarrow> clean_props (plain_props nm ty)"
  by (simp add: clean_props_def plain_props_def line_free_opt_def)






subsection \<open>The geometry section\<close>
















subsection \<open>Fills\<close>

lemma fill_lines_append:
  "fill_lines indent index (fs @ gs)
     = fill_lines indent index fs @ fill_lines indent (index + length fs) gs"
  by (induction fs arbitrary: index) simp_all

lemma hundred: "int_toString 10 100 = ''100''"
  by (simp add: int_toString_def nat_toString.simps digit_char_def)

lemma falsy_opacity_percent:
  "opacity = Some 0 \<or> opacity = None \<Longrightarrow>
   int_toString 10 (Math_round (to_double (or_num opacity 1 * 100))) = ''100''"
  by (auto simp add: or_num_def truthy_num_def Math_round_def hundred to_double_100)

lemma colors_lines_in_block: "set (colors_lines (repeat_str ''  '' level) p) \<subseteq> set (node_block nstr level p)"
  by (auto simp add: node_block_def Let_def)

lemma node_block_in_description: "set (node_block nstr level p) \<subseteq> set (analyzeNode nstr level (Node p cs))"
  by (auto simp add: analyzeNode.simps)

text \<open>
  Claim C9. A SOLID fill whose opacity is present and equal to 0, like one whose opacity
  is absent, is reported with \<open>Opacity: 100%\<close>: the block of its node, and so the
  description, holds the fill line with the position of the fill, its colour and that
  percentage.
\<close>

theorem zero_opacity_fill_line:
  assumes "fills p = before @ fill # rest"
    and "paint_type fill = ''SOLID''"
    and "paint_opacity fill = Some 0 \<or> paint_opacity fill = None"
  shows "(Fill_line, repeat_str ''  '' level @ ''- **Fill ''
            @ int_toString 10 (int (length before) + 1) @ ''**: '' @ rgbToHex (paint_color fill)
            @ '' (Opacity: 100%)'' @ nl)
         \<in> set (analyzeNode nstr level (Node p cs))"
proof -
  let ?indent = "repeat_str ''  '' level"
  let ?line = "(Fill_line, ?indent @ ''- **Fill ''
            @ int_toString 10 (int (length before) + 1) @ ''**: '' @ rgbToHex (paint_color fill)
            @ '' (Opacity: 100%)'' @ nl)"
  have "fill_lines ?indent (length before) (fill # rest)
          = ?line # fill_lines ?indent (length before + 1) rest"
    using assms(2) falsy_opacity_percent [OF assms(3)] by simp
  then have "?line \<in> set (fill_lines ?indent 0 (fills p))"
    by (simp add: assms(1) fill_lines_append)
  then have "?line \<in> set (colors_lines ?indent p)"
    by (simp add: colors_lines_def assms(1))
  then have "?line \<in> set (node_block nstr level p)"
    using colors_lines_in_block by blast
  then show ?thesis
    using node_block_in_description by blast
qed

theorem zero_opacity_fill_line_witness:
  "fills login_props = [] @ white_fill_zero_opacity # []
   \<and> paint_type white_fill_zero_opacity = ''SOLID''
   \<and> paint_opacity white_fill_zero_opacity = Some 0
   \<and> (Fill_line, ''- **Fill 1**: #ffffff (Opacity: 100%)'' @ nl)
       \<in> set (analyzeNode nstr_integer 0 login_screen)"
proof -
  have fs: "fills login_props = [] @ white_fill_zero_opacity # []"
    by (simp add: login_props_def plain_props_def)
  have solid: "paint_type white_fill_zero_opacity = ''SOLID''"
    by (simp add: white_fill_zero_opacity_def)
  have zero: "paint_opacity white_fill_zero_opacity = Some 0 \<or> paint_opacity white_fill_zero_opacity = None"
    by (simp add: white_fill_zero_opacity_def)
  have white: "rgbToHex (Some \<lparr>rgb_r = 1, rgb_g = 1, rgb_b = 1\<rparr>) = ''#ffffff''"
    by (simp add: rgbToHex_def toHex_def to_double_255 Math_round_def int_toString_def
        nat_toString.simps digit_char_def)
  have one: "int_toString 10 1 = ''1''"
    by (simp add: int_toString_def nat_toString.simps digit_char_def)
  show ?thesis
    using zero_opacity_fill_line [OF fs solid zero, of 0 nstr_integer login_children]
    by (simp add: white one repeat_str_def login_screen_def fs solid white_fill_zero_opacity_def)
qed

end
